theory Spec2Isabelle
  imports Main "HOL-Library.Word" "HOL-Library.Signed_Division"
begin

unbundle bit_operations_syntax

section \<open>Result codes, identifiers and run state\<close>

text \<open>
  An \<open>HRESULT\<close> is a signed 32-bit value; the macros \<open>FAILED\<close> and \<open>SUCCEEDED\<close> test
  its sign. The codes below are the ones the two sink filters return or compare with,
  with the values the platform headers give them.
\<close>

type_synonym HRESULT = "32 word"

definition S_OK :: HRESULT where "S_OK = 0"
definition E_POINTER :: HRESULT where "E_POINTER = 0x80004003"
definition E_FAIL :: HRESULT where "E_FAIL = 0x80004005"
definition E_INVALIDARG :: HRESULT where "E_INVALIDARG = 0x80070057"
definition VFW_E_TYPE_NOT_ACCEPTED :: HRESULT where "VFW_E_TYPE_NOT_ACCEPTED = 0x8004022A"
definition VFW_E_NOT_STOPPED :: HRESULT where "VFW_E_NOT_STOPPED = 0x80040224"
definition VFW_E_WRONG_STATE :: HRESULT where "VFW_E_WRONG_STATE = 0x80040227"
definition VFW_E_MEDIA_TIME_NOT_SET :: HRESULT where "VFW_E_MEDIA_TIME_NOT_SET = 0x80040251"
definition VFW_S_NO_MORE_ITEMS :: HRESULT where "VFW_S_NO_MORE_ITEMS = 0x00040103"
definition VFW_S_NO_STOP_TIME :: HRESULT where "VFW_S_NO_STOP_TIME = 0x00040270"

definition FAILED :: "HRESULT \<Rightarrow> bool" where
  "FAILED hr = (sint hr < 0)"


text \<open>A \<open>GUID\<close> is a 128-bit value, compared with \<open>==\<close> and \<open>!=\<close>.\<close>

type_synonym GUID = "128 word"

definition MEDIATYPE_Audio :: GUID where
  "MEDIATYPE_Audio = 0x7364756100000010800000AA00389B71"
definition MEDIATYPE_Video :: GUID where
  "MEDIATYPE_Video = 0x7364697600000010800000AA00389B71"
definition MEDIASUBTYPE_PCM :: GUID where
  "MEDIASUBTYPE_PCM = 0x0000000100000010800000AA00389B71"
definition MEDIASUBTYPE_IEEE_FLOAT :: GUID where
  "MEDIASUBTYPE_IEEE_FLOAT = 0x0000000300000010800000AA00389B71"
definition MEDIASUBTYPE_I420 :: GUID where
  "MEDIASUBTYPE_I420 = 0x3032344900000010800000AA00389B71"
definition MEDIASUBTYPE_RGB24 :: GUID where
  "MEDIASUBTYPE_RGB24 = 0xE436EB7D524F11CE9F530020AF0BA770"
definition FORMAT_None :: GUID where
  "FORMAT_None = 0x0F6417D6C31811D0A43F00A0C911CE86"
definition FORMAT_VideoInfo :: GUID where
  "FORMAT_VideoInfo = 0x05589F80C35611CEBF0100AA0055595A"
definition FORMAT_WaveFormatEx :: GUID where
  "FORMAT_WaveFormatEx = 0x05589F81C35611CEBF0100AA0055595A"
definition FORMAT_VideoInfo2 :: GUID where
  "FORMAT_VideoInfo2 = 0xF72A76A0EB0A11D0ACE40000C0CC16BA"

text \<open>The wave format tags of \<open>mmreg.h\<close>.\<close>

definition WAVE_FORMAT_PCM :: "16 word" where "WAVE_FORMAT_PCM = 0x0001"
definition WAVE_FORMAT_IEEE_FLOAT :: "16 word" where "WAVE_FORMAT_IEEE_FLOAT = 0x0003"
definition WAVE_FORMAT_EXTENSIBLE :: "16 word" where "WAVE_FORMAT_EXTENSIBLE = 0xFFFE"

definition MAKEFOURCC :: "char \<Rightarrow> char \<Rightarrow> char \<Rightarrow> char \<Rightarrow> 32 word" where
  "MAKEFOURCC ch0 ch1 ch2 ch3 =
     of_char ch0 OR push_bit 8 (of_char ch1) OR push_bit 16 (of_char ch2)
       OR push_bit 24 (of_char ch3)"

text \<open>The run state \<open>m_State\<close> of a filter.\<close>

datatype FILTER_STATE = State_Stopped | State_Paused | State_Running

section \<open>Media types and configurations\<close>

text \<open>
  A media type as the pins read it. \<open>Type\<close>, \<open>Subtype\<close> and \<open>FormatType\<close> are the
  results of the accessors of the same names, which return pointers the code tests for
  null: \<open>None\<close> is the null pointer. \<open>Format\<close> is the result of \<open>Format()\<close>, the
  format block, \<open>None\<close> when the pointer is null.
\<close>

record 'fmt CMediaType =
  Type :: "GUID option"
  bTemporalCompression :: bool
  Subtype :: "GUID option"
  FormatType :: "GUID option"
  Format :: "'fmt option"

text \<open>
  The audio configuration: the fields \<open>CheckMediaType\<close> writes and \<open>OnSamplesReceived\<close>
  logs.
\<close>

record AudioConfig =
  format_tag :: "16 word"
  channels :: "16 word"
  sample_rate :: "32 word"
  bytes_per_second :: "32 word"
  block_align :: "16 word"
  bits_per_sample :: "16 word"
  valid_bits_per_sample :: "16 word"
  channel_mask :: "32 word"

text \<open>
  What the accessors of an initialised \<open>AudioMediaType\<close> return; the field
  \<open>mt_format_tag\<close> is the value of \<open>format.format_tag()\<close>, and so on.
\<close>

record AudioMediaType =
  mt_format_tag :: "16 word"
  mt_channels :: "16 word"
  mt_sample_rate :: "32 word"
  mt_bytes_per_second :: "32 word"
  mt_block_align :: "16 word"
  mt_bits_per_sample :: "16 word"
  mt_valid_bits_per_sample :: "16 word"
  mt_channel_mask :: "32 word"

text \<open>
  The header both video format blocks embed. The pin casts \<open>Format()\<close> to
  \<open>VIDEOINFOHEADER*\<close> or \<open>VIDEOINFOHEADER2*\<close> and reads \<open>bmiHeader\<close> through it, so
  the video media type carries that header as its format block.
\<close>

record BITMAPINFOHEADER =
  biWidth :: "32 word"
  biHeight :: "32 word"
  biCompression :: "32 word"

record VideoConfig =
  width :: "32 word"
  height :: "32 word"

text \<open>
  A sink pin holds the requested and the actual configuration (the members
  \<open>requested_config_\<close> and \<open>actual_config_\<close>).
\<close>

record 'cfg SinkPin =
  requested_config :: 'cfg
  actual_config :: 'cfg

type_synonym AudioSinkPin = "AudioConfig SinkPin"
type_synonym VideoSinkPin = "VideoConfig SinkPin"

section \<open>Audio negotiation\<close>

definition kNumInputSubTypes :: nat where
  \<comment> \<open>Modelled from the spec: the count of supported audio sub-kinds, declared in
      the header of the audio sink filter; the initialiser below lists two.\<close>
  "kNumInputSubTypes = 2"

definition kInputSubTypes :: "GUID list" where
  "kInputSubTypes = [MEDIASUBTYPE_IEEE_FLOAT, MEDIASUBTYPE_PCM]"

text \<open>
  The loop of \<open>CheckMediaType\<close> over \<open>kInputSubTypes\<close>: true at the first entry equal
  to the sub-type, false when the entries are exhausted.
\<close>

fun subtype_ok :: "GUID \<Rightarrow> GUID list \<Rightarrow> bool" where
  "subtype_ok subtype_guid [] = False"
| "subtype_ok subtype_guid (g # gs) =
     (if subtype_guid = g then True else subtype_ok subtype_guid gs)"

text \<open>
  \<open>AudioSinkPin::CheckMediaType\<close>. \<open>AudioMediaType::Init\<close> is declared outside
  this file; it is the parameter \<open>Init\<close>, giving the status and the initialised format.
  The log statements have no effect on the result and are left out; the check of the
  format type only logs.
\<close>

definition AudioSinkPin_CheckMediaType ::
  "('fmt CMediaType \<Rightarrow> int \<times> AudioMediaType) \<Rightarrow> 'fmt CMediaType \<Rightarrow> AudioSinkPin
     \<Rightarrow> HRESULT \<times> AudioSinkPin" where
  "AudioSinkPin_CheckMediaType Init ptr_media_type pin =
    (if Type ptr_media_type = None \<or> Type ptr_media_type \<noteq> Some MEDIATYPE_Audio
       then (VFW_E_TYPE_NOT_ACCEPTED, pin)
     else if bTemporalCompression ptr_media_type
       then (VFW_E_TYPE_NOT_ACCEPTED, pin)
     else case (Subtype ptr_media_type, FormatType ptr_media_type) of
       (Some subtype_guid, Some format_guid) \<Rightarrow>
         if \<not> subtype_ok subtype_guid (take kNumInputSubTypes kInputSubTypes)
           then (VFW_E_TYPE_NOT_ACCEPTED, pin)
         else (case Init ptr_media_type of (status, format) \<Rightarrow>
           if status \<noteq> 0 then (E_INVALIDARG, pin)
           else if mt_format_tag format \<noteq> WAVE_FORMAT_PCM \<and>
                   mt_format_tag format \<noteq> WAVE_FORMAT_IEEE_FLOAT \<and>
                   mt_format_tag format \<noteq> WAVE_FORMAT_EXTENSIBLE
             then (VFW_E_TYPE_NOT_ACCEPTED, pin)
           else
             let cfg = (actual_config pin)
                   \<lparr>format_tag := mt_format_tag format,
                    channels := mt_channels format,
                    sample_rate := mt_sample_rate format,
                    bytes_per_second := mt_bytes_per_second format,
                    block_align := mt_block_align format,
                    bits_per_sample := mt_bits_per_sample format\<rparr>;
                 cfg' = (if mt_format_tag format = WAVE_FORMAT_EXTENSIBLE
                         then cfg\<lparr>valid_bits_per_sample := mt_valid_bits_per_sample format,
                                  channel_mask := mt_channel_mask format\<rparr>
                         else cfg)
             in (S_OK, pin\<lparr>actual_config := cfg'\<rparr>))
     | _ \<Rightarrow> (E_INVALIDARG, pin))"

section \<open>Video negotiation\<close>

text \<open>
  \<open>abs\<close> on a 32-bit \<open>LONG\<close>: the negation wraps at the least value.
\<close>

definition abs32 :: "32 word \<Rightarrow> 32 word" where
  "abs32 x = (if sint x < 0 then - x else x)"

text \<open>
  \<open>VideoSinkPin::CheckMediaType\<close>. The two branches are the two format types the pin
  inspects; a format type that is neither runs past both to the final \<open>return S_OK\<close>.
  The test \<open>subtype_guid != MEDIASUBTYPE_I420 || four_cc != MAKEFOURCC(...)\<close> is
  written as the two tests it evaluates in turn.
\<close>

definition VideoSinkPin_CheckMediaType ::
  "BITMAPINFOHEADER CMediaType \<Rightarrow> VideoSinkPin \<Rightarrow> HRESULT \<times> VideoSinkPin" where
  "VideoSinkPin_CheckMediaType ptr_media_type pin =
    (if Type ptr_media_type = None \<or> Type ptr_media_type \<noteq> Some MEDIATYPE_Video
       then (VFW_E_TYPE_NOT_ACCEPTED, pin)
     else case (Subtype ptr_media_type, FormatType ptr_media_type) of
       (Some subtype_guid, Some format_guid) \<Rightarrow>
         if format_guid = FORMAT_VideoInfo then
           (case Format ptr_media_type of
              None \<Rightarrow> (VFW_E_TYPE_NOT_ACCEPTED, pin)
            | Some bmiHeader \<Rightarrow>
                if subtype_guid \<noteq> MEDIASUBTYPE_I420 then (VFW_E_TYPE_NOT_ACCEPTED, pin)
                else if biCompression bmiHeader
                          \<noteq> MAKEFOURCC CHR ''I'' CHR ''4'' CHR ''2'' CHR ''0''
                  then (VFW_E_TYPE_NOT_ACCEPTED, pin)
                else (S_OK, pin\<lparr>actual_config := (actual_config pin)
                        \<lparr>width := biWidth bmiHeader, height := abs32 (biHeight bmiHeader)\<rparr>\<rparr>))
         else if format_guid = FORMAT_VideoInfo2 then
           (case Format ptr_media_type of
              None \<Rightarrow> (VFW_E_TYPE_NOT_ACCEPTED, pin)
            | Some bmiHeader \<Rightarrow>
                if subtype_guid \<noteq> MEDIASUBTYPE_I420 then (VFW_E_TYPE_NOT_ACCEPTED, pin)
                else if biCompression bmiHeader
                          \<noteq> MAKEFOURCC CHR ''I'' CHR ''4'' CHR ''2'' CHR ''0''
                  then (VFW_E_TYPE_NOT_ACCEPTED, pin)
                else (S_OK, pin\<lparr>actual_config := (actual_config pin)
                        \<lparr>width := biWidth bmiHeader, height := abs32 (biHeight bmiHeader)\<rparr>\<rparr>))
         else (S_OK, pin)
     | _ \<Rightarrow> (E_INVALIDARG, pin))"

section \<open>Enumerating the audio formats\<close>

text \<open>
  The read \<open>kInputSubTypes[type_index]\<close>. The array has two entries; an index past
  them reads whatever follows the array in memory, which the parameter \<open>past_end\<close>
  stands for.
\<close>

definition kInputSubTypes_at :: "GUID \<Rightarrow> nat \<Rightarrow> GUID" where
  "kInputSubTypes_at past_end i =
     (if i < length kInputSubTypes then kInputSubTypes ! i else past_end)"

text \<open>
  \<open>AudioSinkPin::GetMediaType\<close>. The media type behind \<open>ptr_media_type\<close> is
  \<open>None\<close> for a null pointer; the result is the returned code and the media type after
  the call.
\<close>

definition AudioSinkPin_GetMediaType ::
  "GUID \<Rightarrow> 32 word \<Rightarrow> 'fmt CMediaType option \<Rightarrow> HRESULT \<times> 'fmt CMediaType option" where
  "AudioSinkPin_GetMediaType past_end type_index ptr_media_type =
    (case ptr_media_type of
       None \<Rightarrow> (E_INVALIDARG, None)
     | Some media_type \<Rightarrow>
         if sint type_index < 0 then (E_INVALIDARG, Some media_type)
         else if sint type_index > int kNumInputSubTypes
           then (VFW_S_NO_MORE_ITEMS, Some media_type)
         else (S_OK, Some (media_type
                 \<lparr>Type := Some MEDIATYPE_Audio,
                  Subtype := Some (kInputSubTypes_at past_end (nat (sint type_index))),
                  FormatType := Some FORMAT_WaveFormatEx\<rparr>)))"

section \<open>The filters: configuration\<close>

text \<open>
  A filter owns its pin and has the run state \<open>m_State\<close> of its base class. The audio
  filter also owns the sample buffer, the video filter the frame.
\<close>

record 'cfg SinkFilter =
  m_State :: FILTER_STATE
  sink_pin :: "'cfg SinkPin"

record 'buf AudioSinkFilter = "AudioConfig SinkFilter" +
  sample_buffer :: 'buf

record 'frm VideoSinkFilter = "VideoConfig SinkFilter" +
  frame :: 'frm

text \<open>
  \<open>config\<close> copies the actual configuration to \<open>*ptr_config\<close>. The argument is the
  configuration behind the pointer, \<open>None\<close> for a null pointer; the result is the code,
  the configuration behind the pointer after the call, and the pin or filter, which the
  call does not write.
\<close>

definition AudioSinkPin_config ::
  "AudioConfig option \<Rightarrow> AudioSinkPin \<Rightarrow> HRESULT \<times> AudioConfig option \<times> AudioSinkPin" where
  "AudioSinkPin_config ptr_config pin =
    (case ptr_config of
       None \<Rightarrow> (E_POINTER, None, pin)
     | Some _ \<Rightarrow> (S_OK, Some (actual_config pin), pin))"

definition VideoSinkPin_config ::
  "VideoConfig option \<Rightarrow> VideoSinkPin \<Rightarrow> HRESULT \<times> VideoConfig option \<times> VideoSinkPin" where
  "VideoSinkPin_config ptr_config pin =
    (case ptr_config of
       None \<Rightarrow> (E_POINTER, None, pin)
     | Some _ \<Rightarrow> (S_OK, Some (actual_config pin), pin))"

definition AudioSinkFilter_config ::
  "AudioConfig option \<Rightarrow> 'buf AudioSinkFilter
     \<Rightarrow> HRESULT \<times> AudioConfig option \<times> 'buf AudioSinkFilter" where
  "AudioSinkFilter_config ptr_config flt =
    (case AudioSinkPin_config ptr_config (sink_pin flt) of
       (hr, out, pin) \<Rightarrow> (hr, out, flt\<lparr>sink_pin := pin\<rparr>))"

definition VideoSinkFilter_config ::
  "VideoConfig option \<Rightarrow> 'frm VideoSinkFilter
     \<Rightarrow> HRESULT \<times> VideoConfig option \<times> 'frm VideoSinkFilter" where
  "VideoSinkFilter_config ptr_config flt =
    (case VideoSinkPin_config ptr_config (sink_pin flt) of
       (hr, out, pin) \<Rightarrow> (hr, out, flt\<lparr>sink_pin := pin\<rparr>))"

text \<open>
  \<open>set_config\<close> stores the requested configuration and resets the actual one to a
  default-constructed value. The constructors \<open>AudioConfig()\<close> and
  \<open>WebmEncoderConfig::VideoCaptureConfig()\<close> are declared outside these files: the
  value they build is the parameter \<open>default_config\<close>.
\<close>

definition AudioSinkPin_set_config ::
  "AudioConfig \<Rightarrow> AudioConfig \<Rightarrow> AudioSinkPin \<Rightarrow> HRESULT \<times> AudioSinkPin" where
  "AudioSinkPin_set_config default_config config pin =
     (S_OK, pin\<lparr>requested_config := config, actual_config := default_config\<rparr>)"

definition VideoSinkPin_set_config ::
  "VideoConfig \<Rightarrow> VideoConfig \<Rightarrow> VideoSinkPin \<Rightarrow> HRESULT \<times> VideoSinkPin" where
  "VideoSinkPin_set_config default_config config pin =
     (S_OK, pin\<lparr>requested_config := config, actual_config := default_config\<rparr>)"

definition AudioSinkFilter_set_config ::
  "AudioConfig \<Rightarrow> AudioConfig \<Rightarrow> 'buf AudioSinkFilter \<Rightarrow> HRESULT \<times> 'buf AudioSinkFilter" where
  "AudioSinkFilter_set_config default_config config flt =
    (if m_State flt \<noteq> State_Stopped then (VFW_E_NOT_STOPPED, flt)
     else case AudioSinkPin_set_config default_config config (sink_pin flt) of
       (hr, pin) \<Rightarrow> (hr, flt\<lparr>sink_pin := pin\<rparr>))"

definition VideoSinkFilter_set_config ::
  "VideoConfig \<Rightarrow> VideoConfig \<Rightarrow> 'frm VideoSinkFilter \<Rightarrow> HRESULT \<times> 'frm VideoSinkFilter" where
  "VideoSinkFilter_set_config default_config config flt =
    (if m_State flt \<noteq> State_Stopped then (VFW_E_NOT_STOPPED, flt)
     else case VideoSinkPin_set_config default_config config (sink_pin flt) of
       (hr, pin) \<Rightarrow> (hr, flt\<lparr>sink_pin := pin\<rparr>))"

section \<open>Sample ingest\<close>

text \<open>
  A delivered sample, as the filters query it: each field is what the method of the
  same name returns. \<open>GetPointer\<close> gives its code and the buffer pointer (\<open>None\<close> for
  null, else the bytes behind it); \<open>GetTime\<close> and \<open>GetMediaTime\<close> give their code and
  the start and end time they store.
\<close>

record IMediaSample =
  GetPointer :: "HRESULT \<times> 8 word list option"
  GetActualDataLength :: "32 word"
  GetTime :: "HRESULT \<times> 64 word \<times> 64 word"
  GetMediaTime :: "HRESULT \<times> 64 word \<times> 64 word"

definition kTicksPerMillisecond :: int where
  \<comment> \<open>Modelled from the spec: the fixed conversion constant of the timestamp
      conversion; a media time counts units of 100 nanoseconds.\<close>
  "kTicksPerMillisecond = 10000"

definition media_time_to_milliseconds :: "64 word \<Rightarrow> 64 word" where
  \<comment> \<open>Modelled from the spec: \<open>media_time_to_milliseconds\<close> is declared in the
      DirectShow utilities outside these files. The spec: device ticks are converted to
      milliseconds with a fixed conversion constant, truncating.\<close>
  "media_time_to_milliseconds media_time =
     word_of_int (sint media_time sdiv kTicksPerMillisecond)"

text \<open>
  What an ingest call leaves behind: the returned code, the filter after the call, the
  buffers handed to the registered callback, and the messages logged at warning or
  error severity, each by its constant text (the values streamed after it are left out).
  Messages of severity \<open>INFO\<close> are not recorded.
\<close>

datatype severity = WARNING | ERROR

record ('flt, 'buf) ingest =
  hresult :: HRESULT
  filter_after :: 'flt
  delivered :: "'buf list"
  logged :: "(severity \<times> string) list"

text \<open>
  \<open>AudioSinkFilter::OnSamplesReceived\<close>. \<open>AudioBuffer::Init\<close> is declared outside
  these files: the parameter \<open>Init\<close> takes the arguments of the call and the buffer it
  is called on, and gives the status and the buffer after the call.
  \<open>callback\<close> is the status the registered callback returns for a buffer.
\<close>

definition AudioSinkFilter_OnSamplesReceived ::
  "(AudioConfig \<Rightarrow> 64 word \<Rightarrow> 64 word \<Rightarrow> 8 word list \<Rightarrow> 32 word \<Rightarrow> 'buf \<Rightarrow> int \<times> 'buf)
     \<Rightarrow> ('buf \<Rightarrow> int) \<Rightarrow> IMediaSample option \<Rightarrow> 'buf AudioSinkFilter
     \<Rightarrow> ('buf AudioSinkFilter, 'buf) ingest" where
  "AudioSinkFilter_OnSamplesReceived Init callback ptr_sample flt =
    (case ptr_sample of
       None \<Rightarrow> \<lparr>hresult = E_POINTER, filter_after = flt, delivered = [], logged = []\<rparr>
     | Some sample \<Rightarrow>
        (case GetPointer sample of (hr, ptr_sample_buffer) \<Rightarrow>
          let sample_length = GetActualDataLength sample in
          if FAILED hr \<or> ptr_sample_buffer = None \<or> sint sample_length \<le> 0 then
            \<lparr>hresult = (if hr = S_OK then E_FAIL else hr), filter_after = flt,
             delivered = [],
             logged = [(ERROR, ''OnSamplesReceived called with empty sample.'')]\<rparr>
          else (case GetTime sample of (hr, start_time, end_time) \<Rightarrow>
            if FAILED hr then
              \<lparr>hresult = hr, filter_after = flt, delivered = [],
               logged = [(ERROR, ''OnSamplesReceived cannot get media time(s).'')]\<rparr>
            else
              let timestamp = media_time_to_milliseconds start_time;
                  duration = (if hr \<noteq> VFW_S_NO_STOP_TIME
                              then media_time_to_milliseconds end_time - timestamp else 0);
                  log1 = (if hr \<noteq> VFW_S_NO_STOP_TIME then []
                          else [(WARNING, ''OnSamplesReceived sample has no stop time.'')])
              in (case Init (actual_config (sink_pin flt)) timestamp duration
                        (case ptr_sample_buffer of Some bytes \<Rightarrow> bytes | None \<Rightarrow> [])
                        sample_length (sample_buffer flt) of
                (status, buffer) \<Rightarrow>
                  if status \<noteq> 0 then
                    \<lparr>hresult = E_FAIL, filter_after = flt\<lparr>sample_buffer := buffer\<rparr>,
                     delivered = [],
                     logged = log1 @
                       [(ERROR, ''OnSamplesReceived sample buffer init failed: '')]\<rparr>
                  else
                    \<lparr>hresult = S_OK, filter_after = flt\<lparr>sample_buffer := buffer\<rparr>,
                     delivered = [buffer],
                     logged = log1 @
                       (if callback buffer \<noteq> 0
                        then [(ERROR, ''OnSamplesReceived failed, status='')]
                        else [])\<rparr>))))"


text \<open>
  \<open>VideoSinkFilter::OnFrameReceived\<close>. \<open>VideoFrame::InitI420\<close> is declared outside
  these files and is the parameter \<open>InitI420\<close>, as \<open>Init\<close> is above. The function
  hands the frame to no callback.
\<close>

definition VideoSinkFilter_OnFrameReceived ::
  "(32 word \<Rightarrow> 32 word \<Rightarrow> 64 word \<Rightarrow> 8 word list \<Rightarrow> 32 word \<Rightarrow> 'frm \<Rightarrow> int \<times> 'frm)
     \<Rightarrow> IMediaSample option \<Rightarrow> 'frm VideoSinkFilter
     \<Rightarrow> ('frm VideoSinkFilter, 'frm) ingest" where
  "VideoSinkFilter_OnFrameReceived InitI420 ptr_sample flt =
    (case ptr_sample of
       None \<Rightarrow> \<lparr>hresult = E_POINTER, filter_after = flt, delivered = [], logged = []\<rparr>
     | Some sample \<Rightarrow>
        (case GetPointer sample of (hr, ptr_sample_buffer) \<Rightarrow>
          if FAILED hr \<or> ptr_sample_buffer = None then
            \<lparr>hresult = (if hr = S_OK then E_FAIL else hr), filter_after = flt,
             delivered = [],
             logged = [(ERROR, ''OnFrameReceived called with empty sample.'')]\<rparr>
          else (case GetMediaTime sample of (hr, start_time, end_time) \<Rightarrow>
            if FAILED hr then
              \<lparr>hresult = hr, filter_after = flt, delivered = [],
               logged = [(ERROR, ''OnFrameReceived cannot get media time(s).'')]\<rparr>
            else
              (case InitI420 (width (actual_config (sink_pin flt)))
                      (height (actual_config (sink_pin flt))) start_time
                      (case ptr_sample_buffer of Some bytes \<Rightarrow> bytes | None \<Rightarrow> [])
                      (GetActualDataLength sample) (frame flt) of
                (status, frm) \<Rightarrow>
                  if status \<noteq> 0 then
                    \<lparr>hresult = E_FAIL, filter_after = flt\<lparr>frame := frm\<rparr>,
                     delivered = [],
                     logged = [(ERROR, ''OnFrameReceived frame init failed: '')]\<rparr>
                  else
                    \<lparr>hresult = S_OK, filter_after = flt\<lparr>frame := frm\<rparr>,
                     delivered = [], logged = []\<rparr>))))"


section \<open>Concrete inputs\<close>

text \<open>
  Inputs at which the theorems below are evaluated. \<open>wave_Init\<close> is an \<open>Init\<close> for a
  media type whose format block is the wave format itself: it fails on a null block.
\<close>

definition zero_AudioMediaType :: AudioMediaType where
  "zero_AudioMediaType =
     \<lparr>mt_format_tag = 0, mt_channels = 0, mt_sample_rate = 0, mt_bytes_per_second = 0,
      mt_block_align = 0, mt_bits_per_sample = 0, mt_valid_bits_per_sample = 0,
      mt_channel_mask = 0\<rparr>"

definition wave_Init :: "AudioMediaType CMediaType \<Rightarrow> int \<times> AudioMediaType" where
  "wave_Init media_type =
     (case Format media_type of
        None \<Rightarrow> (- 1, zero_AudioMediaType)
      | Some wave \<Rightarrow> (0, wave))"

definition pcm_format :: AudioMediaType where
  "pcm_format =
     \<lparr>mt_format_tag = WAVE_FORMAT_PCM, mt_channels = 2, mt_sample_rate = 44100,
      mt_bytes_per_second = 176400, mt_block_align = 4, mt_bits_per_sample = 16,
      mt_valid_bits_per_sample = 0, mt_channel_mask = 0\<rparr>"

definition extensible_format :: AudioMediaType where
  "extensible_format =
     \<lparr>mt_format_tag = WAVE_FORMAT_EXTENSIBLE, mt_channels = 2, mt_sample_rate = 48000,
      mt_bytes_per_second = 288000, mt_block_align = 6, mt_bits_per_sample = 24,
      mt_valid_bits_per_sample = 24, mt_channel_mask = 3\<rparr>"

definition audio_proposal ::
  "GUID \<Rightarrow> AudioMediaType option \<Rightarrow> AudioMediaType CMediaType" where
  "audio_proposal subtype_guid wave =
     \<lparr>Type = Some MEDIATYPE_Audio, bTemporalCompression = False,
      Subtype = Some subtype_guid, FormatType = Some FORMAT_WaveFormatEx, Format = wave\<rparr>"

definition zero_AudioConfig :: AudioConfig where
  "zero_AudioConfig =
     \<lparr>format_tag = 0, channels = 0, sample_rate = 0, bytes_per_second = 0,
      block_align = 0, bits_per_sample = 0, valid_bits_per_sample = 0, channel_mask = 0\<rparr>"

definition audio_pin0 :: AudioSinkPin where
  "audio_pin0 = \<lparr>requested_config = zero_AudioConfig, actual_config = zero_AudioConfig\<rparr>"

definition video_proposal ::
  "GUID \<Rightarrow> GUID \<Rightarrow> BITMAPINFOHEADER option \<Rightarrow> BITMAPINFOHEADER CMediaType" where
  "video_proposal subtype_guid format_guid header =
     \<lparr>Type = Some MEDIATYPE_Video, bTemporalCompression = False,
      Subtype = Some subtype_guid, FormatType = Some format_guid, Format = header\<rparr>"

definition i420_header :: BITMAPINFOHEADER where
  "i420_header =
     \<lparr>biWidth = 640, biHeight = - 480,
      biCompression = MAKEFOURCC CHR ''I'' CHR ''4'' CHR ''2'' CHR ''0''\<rparr>"

definition video_pin0 :: VideoSinkPin where
  "video_pin0 = \<lparr>requested_config = \<lparr>width = 640, height = 480\<rparr>,
                  actual_config = \<lparr>width = 0, height = 0\<rparr>\<rparr>"

text \<open>
  For the ingest: a buffer that records what \<open>Init\<close> was given, an \<open>Init\<close> that copies
  the payload and fails on a payload of more than four bytes (the buffer is then left as
  it was), the same for frames, a sample whose \<open>GetPointer\<close> succeeds, a base-class
  \<open>Receive\<close> that fails only in the stopped state, and two running filters.
\<close>

type_synonym AudioBuffer = "AudioConfig \<times> 64 word \<times> 64 word \<times> 8 word list"

definition copy_Init ::
  "AudioConfig \<Rightarrow> 64 word \<Rightarrow> 64 word \<Rightarrow> 8 word list \<Rightarrow> 32 word \<Rightarrow> AudioBuffer
     \<Rightarrow> int \<times> AudioBuffer" where
  "copy_Init config timestamp duration ptr_data data_length buffer =
     (if 4 < sint data_length then (- 1, buffer)
      else (0, (config, timestamp, duration, take (nat (sint data_length)) ptr_data)))"

type_synonym VideoFrame = "32 word \<times> 32 word \<times> 64 word \<times> 8 word list"


definition media_sample ::
  "8 word list option \<Rightarrow> 32 word \<Rightarrow> HRESULT \<Rightarrow> 64 word \<Rightarrow> 64 word \<Rightarrow> IMediaSample" where
  "media_sample ptr len time_hr start_time end_time =
     \<lparr>GetPointer = (S_OK, ptr), GetActualDataLength = len,
      GetTime = (time_hr, start_time, end_time),
      GetMediaTime = (time_hr, start_time, end_time)\<rparr>"


definition audio_filter0 :: "AudioBuffer AudioSinkFilter" where
  "audio_filter0 =
     \<lparr>m_State = State_Running, sink_pin = audio_pin0,
      sample_buffer = (zero_AudioConfig, 0, 0, [])\<rparr>"

definition video_filter0 :: "VideoFrame VideoSinkFilter" where
  "video_filter0 =
     \<lparr>m_State = State_Running, sink_pin = video_pin0, frame = (0, 0, 0, [])\<rparr>"

section \<open>Facts about the codes and the sub-type table\<close>

lemmas hresult_defs =
  S_OK_def E_POINTER_def E_FAIL_def E_INVALIDARG_def
  VFW_E_TYPE_NOT_ACCEPTED_def VFW_E_NOT_STOPPED_def VFW_E_WRONG_STATE_def
  VFW_E_MEDIA_TIME_NOT_SET_def
  VFW_S_NO_MORE_ITEMS_def VFW_S_NO_STOP_TIME_def

lemmas guid_defs =
  MEDIATYPE_Audio_def MEDIATYPE_Video_def MEDIASUBTYPE_PCM_def MEDIASUBTYPE_IEEE_FLOAT_def
  MEDIASUBTYPE_I420_def MEDIASUBTYPE_RGB24_def FORMAT_None_def FORMAT_VideoInfo_def
  FORMAT_WaveFormatEx_def FORMAT_VideoInfo2_def

lemmas wave_defs = WAVE_FORMAT_PCM_def WAVE_FORMAT_IEEE_FLOAT_def WAVE_FORMAT_EXTENSIBLE_def

lemmas example_defs =
  zero_AudioMediaType_def wave_Init_def pcm_format_def extensible_format_def
  audio_proposal_def zero_AudioConfig_def audio_pin0_def video_proposal_def
  i420_header_def video_pin0_def

lemma failed_codes:
  "FAILED VFW_E_TYPE_NOT_ACCEPTED" "FAILED E_INVALIDARG" "FAILED E_POINTER" "FAILED E_FAIL"
  "FAILED VFW_E_NOT_STOPPED" "FAILED VFW_E_MEDIA_TIME_NOT_SET" "\<not> FAILED S_OK"
  by (simp_all add: FAILED_def hresult_defs)

lemma hresult_distinct:
  "S_OK \<noteq> VFW_E_TYPE_NOT_ACCEPTED" "S_OK \<noteq> E_INVALIDARG"
  "VFW_E_TYPE_NOT_ACCEPTED \<noteq> S_OK" "E_INVALIDARG \<noteq> S_OK"
  "E_INVALIDARG \<noteq> VFW_E_TYPE_NOT_ACCEPTED" "VFW_E_TYPE_NOT_ACCEPTED \<noteq> E_INVALIDARG"
  by (simp_all add: hresult_defs)


lemma subtype_ok_set: "subtype_ok g gs = (g \<in> set gs)"
  by (induction gs) auto

section \<open>Negotiation\<close>

lemma audio_check_cases:
  "AudioSinkPin_CheckMediaType Init mt pin = (hr, pin') \<Longrightarrow>
     hr = S_OK \<or> (hr = VFW_E_TYPE_NOT_ACCEPTED \<or> hr = E_INVALIDARG) \<and> pin' = pin"
  by (auto simp: AudioSinkPin_CheckMediaType_def Let_def
      split: if_splits option.splits prod.splits)

lemma audio_check_subtype:
  "Subtype mt \<noteq> Some MEDIASUBTYPE_IEEE_FLOAT \<Longrightarrow> Subtype mt \<noteq> Some MEDIASUBTYPE_PCM \<Longrightarrow>
   AudioSinkPin_CheckMediaType Init mt pin = (hr, pin') \<Longrightarrow>
     (hr = VFW_E_TYPE_NOT_ACCEPTED \<or> hr = E_INVALIDARG) \<and> pin' = pin"
  by (auto simp: AudioSinkPin_CheckMediaType_def Let_def kNumInputSubTypes_def
      kInputSubTypes_def split: if_splits option.splits prod.splits)

lemma video_check_cases:
  "VideoSinkPin_CheckMediaType mt pin = (hr, pin') \<Longrightarrow>
     hr = S_OK \<or> (hr = VFW_E_TYPE_NOT_ACCEPTED \<or> hr = E_INVALIDARG) \<and> pin' = pin"
  by (auto simp: VideoSinkPin_CheckMediaType_def Let_def
      split: if_splits option.splits prod.splits)

text \<open>
  Claim C1. A negotiation that fails is a rejection that leaves the pin as it was. The
  pins report a rejection with \<open>VFW_E_TYPE_NOT_ACCEPTED\<close> or, when a sub-type or
  format-type pointer is null or the format block does not initialise, with
  \<open>E_INVALIDARG\<close>; both are failure codes. For every audio proposal whose sub-type is
  neither \<open>MEDIASUBTYPE_IEEE_FLOAT\<close> nor \<open>MEDIASUBTYPE_PCM\<close> (a null sub-type
  included), \<open>AudioSinkPin::CheckMediaType\<close> returns such a code and the pin, with its
  actual configuration, is unchanged; the same holds for every audio proposal and for
  every video proposal on which \<open>CheckMediaType\<close> returns anything but \<open>S_OK\<close>.
\<close>

theorem C1_rejection_keeps_actual_config:
  "(Subtype mt \<noteq> Some MEDIASUBTYPE_IEEE_FLOAT \<and> Subtype mt \<noteq> Some MEDIASUBTYPE_PCM \<longrightarrow>
      FAILED (fst (AudioSinkPin_CheckMediaType Init mt pin)) \<and>
      fst (AudioSinkPin_CheckMediaType Init mt pin)
        \<in> {VFW_E_TYPE_NOT_ACCEPTED, E_INVALIDARG} \<and>
      snd (AudioSinkPin_CheckMediaType Init mt pin) = pin) \<and>
   (fst (AudioSinkPin_CheckMediaType Init mt pin) \<noteq> S_OK \<longrightarrow>
      FAILED (fst (AudioSinkPin_CheckMediaType Init mt pin)) \<and>
      fst (AudioSinkPin_CheckMediaType Init mt pin)
        \<in> {VFW_E_TYPE_NOT_ACCEPTED, E_INVALIDARG} \<and>
      snd (AudioSinkPin_CheckMediaType Init mt pin) = pin) \<and>
   (fst (VideoSinkPin_CheckMediaType vmt vpin) \<noteq> S_OK \<longrightarrow>
      FAILED (fst (VideoSinkPin_CheckMediaType vmt vpin)) \<and>
      fst (VideoSinkPin_CheckMediaType vmt vpin)
        \<in> {VFW_E_TYPE_NOT_ACCEPTED, E_INVALIDARG} \<and>
      snd (VideoSinkPin_CheckMediaType vmt vpin) = vpin)"
proof -
  obtain hr pin' where a: "AudioSinkPin_CheckMediaType Init mt pin = (hr, pin')"
    by (cases "AudioSinkPin_CheckMediaType Init mt pin")
  obtain vhr vpin' where v: "VideoSinkPin_CheckMediaType vmt vpin = (vhr, vpin')"
    by (cases "VideoSinkPin_CheckMediaType vmt vpin")
  show ?thesis
    using audio_check_cases [OF a] audio_check_subtype [OF _ _ a] video_check_cases [OF v]
    by (auto simp: a v failed_codes hresult_distinct)
qed

theorem C1_rejection_keeps_actual_config_witness:
  "Subtype (audio_proposal MEDIASUBTYPE_RGB24 (Some pcm_format)) \<noteq> Some MEDIASUBTYPE_IEEE_FLOAT \<and>
   Subtype (audio_proposal MEDIASUBTYPE_RGB24 (Some pcm_format)) \<noteq> Some MEDIASUBTYPE_PCM \<and>
   AudioSinkPin_CheckMediaType wave_Init (audio_proposal MEDIASUBTYPE_RGB24 (Some pcm_format))
     audio_pin0 = (VFW_E_TYPE_NOT_ACCEPTED, audio_pin0) \<and>
   AudioSinkPin_CheckMediaType wave_Init (audio_proposal MEDIASUBTYPE_PCM None)
     audio_pin0 = (E_INVALIDARG, audio_pin0) \<and>
   VideoSinkPin_CheckMediaType
     (video_proposal MEDIASUBTYPE_RGB24 FORMAT_VideoInfo (Some i420_header)) video_pin0
     = (VFW_E_TYPE_NOT_ACCEPTED, video_pin0) \<and>
   FAILED VFW_E_TYPE_NOT_ACCEPTED \<and> FAILED E_INVALIDARG"
  using
    C1_rejection_keeps_actual_config [where mt = "audio_proposal MEDIASUBTYPE_RGB24 (Some pcm_format)"
      and Init = wave_Init and pin = audio_pin0
      and vmt = "video_proposal MEDIASUBTYPE_RGB24 FORMAT_VideoInfo (Some i420_header)"
      and vpin = video_pin0]
    C1_rejection_keeps_actual_config [where mt = "audio_proposal MEDIASUBTYPE_PCM None"
      and Init = wave_Init and pin = audio_pin0
      and vmt = "video_proposal MEDIASUBTYPE_RGB24 FORMAT_VideoInfo (Some i420_header)"
      and vpin = video_pin0]
  by (simp add: AudioSinkPin_CheckMediaType_def VideoSinkPin_CheckMediaType_def example_defs
      guid_defs kInputSubTypes_def kNumInputSubTypes_def failed_codes)

text \<open>
  Claim C2, at an input the claim excludes. A video proposal whose format type is
  neither \<open>FORMAT_VideoInfo\<close> nor \<open>FORMAT_VideoInfo2\<close> runs past both branches of
  \<open>VideoSinkPin::CheckMediaType\<close>: with format type \<open>FORMAT_None\<close> and sub-type
  \<open>MEDIASUBTYPE_RGB24\<close> the call returns \<open>S_OK\<close> and stores nothing, while the same
  sub-type under \<open>FORMAT_VideoInfo\<close> is refused.
\<close>

theorem C2_unknown_format_type_accepted:
  "VideoSinkPin_CheckMediaType (video_proposal MEDIASUBTYPE_RGB24 FORMAT_None None) pin
     = (S_OK, pin) \<and>
   FORMAT_None \<noteq> FORMAT_VideoInfo \<and> FORMAT_None \<noteq> FORMAT_VideoInfo2 \<and>
   MEDIASUBTYPE_RGB24 \<noteq> MEDIASUBTYPE_I420 \<and>
   VideoSinkPin_CheckMediaType
     (video_proposal MEDIASUBTYPE_RGB24 FORMAT_VideoInfo (Some i420_header)) pin
     = (VFW_E_TYPE_NOT_ACCEPTED, pin)"
  by (simp add: VideoSinkPin_CheckMediaType_def example_defs guid_defs)

text \<open>
  Claim C5, as the code has it. When \<open>AudioSinkPin::CheckMediaType\<close> accepts a proposal,
  the actual configuration takes the format tag of the parsed format. With the tag
  \<open>WAVE_FORMAT_EXTENSIBLE\<close>, \<open>valid_bits_per_sample\<close> and \<open>channel_mask\<close> are copied
  from the parsed format. With any other accepted tag (\<open>WAVE_FORMAT_PCM\<close> or
  \<open>WAVE_FORMAT_IEEE_FLOAT\<close>) the two fields are not written: they keep the values they
  had before the call.
\<close>

theorem C5_extensible_fields:
  "fst (AudioSinkPin_CheckMediaType Init mt pin) = S_OK \<Longrightarrow>
     format_tag (actual_config (snd (AudioSinkPin_CheckMediaType Init mt pin)))
       = mt_format_tag (snd (Init mt)) \<and>
     (mt_format_tag (snd (Init mt)) = WAVE_FORMAT_EXTENSIBLE \<longrightarrow>
        valid_bits_per_sample (actual_config (snd (AudioSinkPin_CheckMediaType Init mt pin)))
          = mt_valid_bits_per_sample (snd (Init mt)) \<and>
        channel_mask (actual_config (snd (AudioSinkPin_CheckMediaType Init mt pin)))
          = mt_channel_mask (snd (Init mt))) \<and>
     (mt_format_tag (snd (Init mt)) \<noteq> WAVE_FORMAT_EXTENSIBLE \<longrightarrow>
        mt_format_tag (snd (Init mt)) \<in> {WAVE_FORMAT_PCM, WAVE_FORMAT_IEEE_FLOAT} \<and>
        valid_bits_per_sample (actual_config (snd (AudioSinkPin_CheckMediaType Init mt pin)))
          = valid_bits_per_sample (actual_config pin) \<and>
        channel_mask (actual_config (snd (AudioSinkPin_CheckMediaType Init mt pin)))
          = channel_mask (actual_config pin))"
  by (auto simp: AudioSinkPin_CheckMediaType_def Let_def hresult_distinct
      split: if_splits option.splits prod.splits)

theorem C5_extensible_fields_witness:
  "fst (AudioSinkPin_CheckMediaType wave_Init
      (audio_proposal MEDIASUBTYPE_PCM (Some extensible_format)) audio_pin0) = S_OK \<and>
   mt_format_tag (snd (wave_Init (audio_proposal MEDIASUBTYPE_PCM (Some extensible_format))))
     = WAVE_FORMAT_EXTENSIBLE \<and>
   valid_bits_per_sample (actual_config (snd (AudioSinkPin_CheckMediaType wave_Init
      (audio_proposal MEDIASUBTYPE_PCM (Some extensible_format)) audio_pin0))) = 24 \<and>
   channel_mask (actual_config (snd (AudioSinkPin_CheckMediaType wave_Init
      (audio_proposal MEDIASUBTYPE_PCM (Some extensible_format)) audio_pin0))) = 3 \<and>
   fst (AudioSinkPin_CheckMediaType wave_Init
      (audio_proposal MEDIASUBTYPE_PCM (Some pcm_format)) audio_pin0) = S_OK \<and>
   mt_format_tag (snd (wave_Init (audio_proposal MEDIASUBTYPE_PCM (Some pcm_format))))
     \<noteq> WAVE_FORMAT_EXTENSIBLE \<and>
   valid_bits_per_sample (actual_config (snd (AudioSinkPin_CheckMediaType wave_Init
      (audio_proposal MEDIASUBTYPE_PCM (Some pcm_format)) audio_pin0))) = 0 \<and>
   channel_mask (actual_config (snd (AudioSinkPin_CheckMediaType wave_Init
      (audio_proposal MEDIASUBTYPE_PCM (Some pcm_format)) audio_pin0))) = 0"
  using
    C5_extensible_fields [where Init = wave_Init
      and mt = "audio_proposal MEDIASUBTYPE_PCM (Some extensible_format)" and pin = audio_pin0]
    C5_extensible_fields [where Init = wave_Init
      and mt = "audio_proposal MEDIASUBTYPE_PCM (Some pcm_format)" and pin = audio_pin0]
  by (simp add: AudioSinkPin_CheckMediaType_def example_defs guid_defs wave_defs
      kInputSubTypes_def kNumInputSubTypes_def)

text \<open>
  The two fields are therefore not always at their defaults after a proposal with a
  non-extensible tag is accepted: starting from a zero configuration, an accepted
  extensible proposal followed by an accepted PCM proposal leaves the format tag
  \<open>WAVE_FORMAT_PCM\<close> with \<open>valid_bits_per_sample = 24\<close> and \<open>channel_mask = 3\<close>.
\<close>

theorem C5_stale_extensible_fields_counterexample:
  "fst (AudioSinkPin_CheckMediaType wave_Init (audio_proposal MEDIASUBTYPE_PCM (Some extensible_format)) audio_pin0) = S_OK \<and>
   fst (AudioSinkPin_CheckMediaType wave_Init (audio_proposal MEDIASUBTYPE_PCM (Some pcm_format))
     (snd (AudioSinkPin_CheckMediaType wave_Init
        (audio_proposal MEDIASUBTYPE_PCM (Some extensible_format)) audio_pin0))) = S_OK \<and>
   format_tag (actual_config (snd (AudioSinkPin_CheckMediaType wave_Init (audio_proposal MEDIASUBTYPE_PCM (Some pcm_format))
     (snd (AudioSinkPin_CheckMediaType wave_Init
        (audio_proposal MEDIASUBTYPE_PCM (Some extensible_format)) audio_pin0))))) = WAVE_FORMAT_PCM \<and>
   valid_bits_per_sample (actual_config (snd (AudioSinkPin_CheckMediaType wave_Init (audio_proposal MEDIASUBTYPE_PCM (Some pcm_format))
     (snd (AudioSinkPin_CheckMediaType wave_Init
        (audio_proposal MEDIASUBTYPE_PCM (Some extensible_format)) audio_pin0))))) = 24 \<and>
   channel_mask (actual_config (snd (AudioSinkPin_CheckMediaType wave_Init (audio_proposal MEDIASUBTYPE_PCM (Some pcm_format))
     (snd (AudioSinkPin_CheckMediaType wave_Init
        (audio_proposal MEDIASUBTYPE_PCM (Some extensible_format)) audio_pin0))))) = 3 \<and>
   valid_bits_per_sample (actual_config audio_pin0) = 0 \<and> channel_mask (actual_config audio_pin0) = 0"
  by (simp add: AudioSinkPin_CheckMediaType_def example_defs guid_defs wave_defs
      kInputSubTypes_def kNumInputSubTypes_def)

text \<open>
  Claim C6, at the index equal to the count. \<open>AudioSinkPin::GetMediaType\<close> tests
  \<open>type_index > kNumInputSubTypes\<close>, so index 2 is not end-of-list: the call returns
  \<open>S_OK\<close> with the sub-type read past the end of \<open>kInputSubTypes\<close>. Index 3 gives
  \<open>VFW_S_NO_MORE_ITEMS\<close>; indices 0 and 1 give the two supported sub-types.
\<close>

theorem C6_index_equal_to_count:
  "AudioSinkPin_GetMediaType past_end 2 (Some mt)
     = (S_OK, Some (mt\<lparr>Type := Some MEDIATYPE_Audio, Subtype := Some past_end,
                        FormatType := Some FORMAT_WaveFormatEx\<rparr>)) \<and>
   S_OK \<noteq> VFW_S_NO_MORE_ITEMS \<and>
   fst (AudioSinkPin_GetMediaType past_end 3 (Some mt)) = VFW_S_NO_MORE_ITEMS \<and>
   AudioSinkPin_GetMediaType past_end 0 (Some mt)
     = (S_OK, Some (mt\<lparr>Type := Some MEDIATYPE_Audio, Subtype := Some MEDIASUBTYPE_IEEE_FLOAT,
                        FormatType := Some FORMAT_WaveFormatEx\<rparr>)) \<and>
   AudioSinkPin_GetMediaType past_end 1 (Some mt)
     = (S_OK, Some (mt\<lparr>Type := Some MEDIATYPE_Audio, Subtype := Some MEDIASUBTYPE_PCM,
                        FormatType := Some FORMAT_WaveFormatEx\<rparr>))"
  by (simp add: AudioSinkPin_GetMediaType_def kInputSubTypes_at_def kInputSubTypes_def
      kNumInputSubTypes_def hresult_defs)

section \<open>Configuration\<close>

text \<open>
  Claim C8. In a run state other than \<open>State_Stopped\<close>, \<open>set_config\<close> of either filter
  fails with \<open>VFW_E_NOT_STOPPED\<close> and leaves the filter, with the requested and the
  actual configuration, unchanged. In \<open>State_Stopped\<close> it returns \<open>S_OK\<close>, the
  requested configuration becomes the supplied value and the actual configuration the
  default-constructed one, whatever it was before.
\<close>

theorem C8_set_config:
  "(m_State af \<noteq> State_Stopped \<longrightarrow>
      AudioSinkFilter_set_config adflt acfg af = (VFW_E_NOT_STOPPED, af)) \<and>
   (m_State af = State_Stopped \<longrightarrow>
      AudioSinkFilter_set_config adflt acfg af
        = (S_OK, af\<lparr>sink_pin := \<lparr>requested_config = acfg, actual_config = adflt\<rparr>\<rparr>)) \<and>
   (m_State vf \<noteq> State_Stopped \<longrightarrow>
      VideoSinkFilter_set_config vdflt vcfg vf = (VFW_E_NOT_STOPPED, vf)) \<and>
   (m_State vf = State_Stopped \<longrightarrow>
      VideoSinkFilter_set_config vdflt vcfg vf
        = (S_OK, vf\<lparr>sink_pin := \<lparr>requested_config = vcfg, actual_config = vdflt\<rparr>\<rparr>)) \<and>
   FAILED VFW_E_NOT_STOPPED"
  by (simp add: AudioSinkFilter_set_config_def VideoSinkFilter_set_config_def
      AudioSinkPin_set_config_def VideoSinkPin_set_config_def failed_codes)

theorem C8_set_config_witness:
  "m_State audio_filter0 \<noteq> State_Stopped \<and>
   AudioSinkFilter_set_config zero_AudioConfig (actual_config audio_pin0) audio_filter0
     = (VFW_E_NOT_STOPPED, audio_filter0) \<and>
   m_State (audio_filter0\<lparr>m_State := State_Stopped\<rparr>) = State_Stopped \<and>
   AudioSinkFilter_set_config zero_AudioConfig (actual_config audio_pin0)
     (audio_filter0\<lparr>m_State := State_Stopped\<rparr>)
     = (S_OK, audio_filter0\<lparr>m_State := State_Stopped,
          sink_pin := \<lparr>requested_config = actual_config audio_pin0,
                       actual_config = zero_AudioConfig\<rparr>\<rparr>) \<and>
   m_State video_filter0 \<noteq> State_Stopped \<and>
   VideoSinkFilter_set_config \<lparr>width = 0, height = 0\<rparr> \<lparr>width = 320, height = 240\<rparr>
     video_filter0 = (VFW_E_NOT_STOPPED, video_filter0) \<and>
   m_State (video_filter0\<lparr>m_State := State_Stopped\<rparr>) = State_Stopped \<and>
   VideoSinkFilter_set_config \<lparr>width = 0, height = 0\<rparr> \<lparr>width = 320, height = 240\<rparr>
     (video_filter0\<lparr>m_State := State_Stopped\<rparr>)
     = (S_OK, video_filter0\<lparr>m_State := State_Stopped,
          sink_pin := \<lparr>requested_config = \<lparr>width = 320, height = 240\<rparr>,
                       actual_config = \<lparr>width = 0, height = 0\<rparr>\<rparr>\<rparr>)"
  using
    C8_set_config [where af = audio_filter0 and adflt = zero_AudioConfig
      and acfg = "actual_config audio_pin0" and vf = video_filter0
      and vdflt = "\<lparr>width = 0, height = 0\<rparr>" and vcfg = "\<lparr>width = 320, height = 240\<rparr>"]
    C8_set_config [where af = "audio_filter0\<lparr>m_State := State_Stopped\<rparr>"
      and adflt = zero_AudioConfig
      and acfg = "actual_config audio_pin0" and vf = "video_filter0\<lparr>m_State := State_Stopped\<rparr>"
      and vdflt = "\<lparr>width = 0, height = 0\<rparr>" and vcfg = "\<lparr>width = 320, height = 240\<rparr>"]
  by (simp add: audio_filter0_def video_filter0_def)

text \<open>
  Claim C10. \<open>config\<close> with a null output pointer returns \<open>E_POINTER\<close>; with a
  non-null pointer it returns \<open>S_OK\<close> and the output holds the actual configuration.
  In both cases the pin and the filter are unchanged. This holds for the audio and the
  video pin and filter in every state.
\<close>

theorem C10_config:
  "AudioSinkFilter_config None af = (E_POINTER, None, af) \<and>
   AudioSinkFilter_config (Some aout) af = (S_OK, Some (actual_config (sink_pin af)), af) \<and>
   AudioSinkPin_config None apin = (E_POINTER, None, apin) \<and>
   AudioSinkPin_config (Some aout) apin = (S_OK, Some (actual_config apin), apin) \<and>
   VideoSinkFilter_config None vf = (E_POINTER, None, vf) \<and>
   VideoSinkFilter_config (Some vout) vf = (S_OK, Some (actual_config (sink_pin vf)), vf) \<and>
   VideoSinkPin_config None vpin = (E_POINTER, None, vpin) \<and>
   VideoSinkPin_config (Some vout) vpin = (S_OK, Some (actual_config vpin), vpin)"
  by (simp add: AudioSinkFilter_config_def VideoSinkFilter_config_def
      AudioSinkPin_config_def VideoSinkPin_config_def)

section \<open>Timestamps\<close>

lemma sdiv_nonneg: "0 \<le> a \<Longrightarrow> 0 < k \<Longrightarrow> a sdiv k = a div k" for a k :: int
  by (cases "a = 0") (simp_all add: signed_divide_int_def sgn_if)

lemma sdiv_neg: "a < 0 \<Longrightarrow> 0 < k \<Longrightarrow> a sdiv k = - ((- a) div k)" for a k :: int
  by (simp add: signed_divide_int_def sgn_if)

lemma div_pos_bounds: "0 \<le> a \<Longrightarrow> 0 < k \<Longrightarrow> 0 \<le> a div k \<and> a div k \<le> a" for a k :: int
proof -
  assume a: "0 \<le> a" and k: "0 < k"
  have "a div k \<le> a div 1" using a k by (intro zdiv_mono2) simp_all
  then show ?thesis using a k by (simp add: pos_imp_zdiv_nonneg_iff)
qed

lemma sdiv_mono_pos:
  fixes a b k :: int
  assumes "0 < k" "a \<le> b"
  shows "a sdiv k \<le> b sdiv k"
proof -
  consider "0 \<le> a" | "a < 0" "0 \<le> b" | "b < 0" by linarith
  then show ?thesis
  proof cases
    case 1
    then show ?thesis using assms by (simp add: sdiv_nonneg zdiv_mono1)
  next
    case 2
    have "0 \<le> (- a) div k" "0 \<le> b div k"
      using assms 2 by (simp_all add: pos_imp_zdiv_nonneg_iff)
    then show ?thesis using 2 assms by (simp add: sdiv_nonneg sdiv_neg)
  next
    case 3
    then have "(- b) div k \<le> (- a) div k" using assms by (intro zdiv_mono1) simp_all
    then show ?thesis using 3 assms by (simp add: sdiv_neg)
  qed
qed

lemma sdiv_between:
  fixes a k :: int
  assumes "0 < k"
  shows "(0 \<le> a \<longrightarrow> 0 \<le> a sdiv k \<and> a sdiv k \<le> a) \<and>
         (a < 0 \<longrightarrow> a \<le> a sdiv k \<and> a sdiv k \<le> 0)"
  using assms div_pos_bounds [of a k] div_pos_bounds [of "- a" k]
  by (auto simp: sdiv_nonneg sdiv_neg)

text \<open>The quotient of a 64-bit value fits in 64 bits: the conversion never wraps.\<close>

lemma sint_media_time_to_milliseconds:
  "sint (media_time_to_milliseconds t) = sint t sdiv 10000"
proof -
  have b: "(0 \<le> sint t \<longrightarrow> 0 \<le> sint t sdiv 10000 \<and> sint t sdiv 10000 \<le> sint t) \<and>
        (sint t < 0 \<longrightarrow> sint t \<le> sint t sdiv 10000 \<and> sint t sdiv 10000 \<le> 0)"
    by (rule sdiv_between) simp
  have r: "- (2 ^ 63) \<le> sint t" "sint t < 2 ^ 63"
    using sint_ge [of t] sint_lt [of t] by simp_all
  have "- (2 ^ 63) \<le> sint t sdiv 10000 \<and> sint t sdiv 10000 < 2 ^ 63"
  proof (cases "0 \<le> sint t")
    case True
    then show ?thesis using b r by linarith
  next
    case False
    then show ?thesis using b r by linarith
  qed
  then show ?thesis
    by (simp add: media_time_to_milliseconds_def kTicksPerMillisecond_def
        sint_sbintrunc' signed_take_bit_int_eq_self)
qed

text \<open>
  Claim C9. The conversion of a media time to milliseconds is monotonic: for start times
  \<open>t1 < t2\<close>, read as signed 64-bit values, the millisecond values satisfy
  \<open>ms(t1) \<le> ms(t2)\<close>.
\<close>

theorem C9_media_time_to_milliseconds_mono:
  "sint t1 < sint t2 \<Longrightarrow>
     sint (media_time_to_milliseconds t1) \<le> sint (media_time_to_milliseconds t2)"
  by (simp add: sint_media_time_to_milliseconds sdiv_mono_pos)

theorem C9_media_time_to_milliseconds_mono_witness:
  "sint (10000 :: 64 word) < sint (25000 :: 64 word) \<and>
   sint (media_time_to_milliseconds 10000) \<le> sint (media_time_to_milliseconds 25000) \<and>
   media_time_to_milliseconds 10000 = 1 \<and> media_time_to_milliseconds 25000 = 2 \<and>
   sint (media_time_to_milliseconds (- 19999)) = - 1"
  using C9_media_time_to_milliseconds_mono [of 10000 25000]
  by (simp add: media_time_to_milliseconds_def kTicksPerMillisecond_def
      signed_divide_int_def)

section \<open>Sample ingest: the shape of a call\<close>

















section \<open>Sample ingest: failures\<close>




text \<open>
  Claim C4, at a video sample of length zero. \<open>OnFrameReceived\<close> tests the buffer
  pointer only, not the length: a sample with a non-null pointer and length 0 goes on to
  the time query and the frame initialisation. It returns the failure of
  \<open>GetMediaTime\<close> when that fails, and \<open>S_OK\<close> when the time query succeeds and
  \<open>InitI420\<close> accepts the empty payload. \<open>OnSamplesReceived\<close> tests
  \<open>sample_length <= 0\<close>: on the same sample it returns \<open>E_FAIL\<close> and calls no
  callback.
\<close>

theorem C4_video_length_not_tested:
  "sint (GetActualDataLength (media_sample (Some []) 0 VFW_E_MEDIA_TIME_NOT_SET 0 0)) \<le> 0 \<and>
   hresult (VideoSinkFilter_OnFrameReceived FrameInit
      (Some (media_sample (Some []) 0 VFW_E_MEDIA_TIME_NOT_SET 0 0)) vf)
     = VFW_E_MEDIA_TIME_NOT_SET \<and>
   VFW_E_MEDIA_TIME_NOT_SET \<noteq> E_FAIL \<and>
   hresult (VideoSinkFilter_OnFrameReceived (\<lambda>w h t p n frm. (0, frm))
      (Some (media_sample (Some []) 0 S_OK 0 0)) vf) = S_OK \<and>
   hresult (AudioSinkFilter_OnSamplesReceived Init cb
      (Some (media_sample (Some []) 0 S_OK 0 0)) af) = E_FAIL \<and>
   delivered (AudioSinkFilter_OnSamplesReceived Init cb
      (Some (media_sample (Some []) 0 S_OK 0 0)) af) = []"
  by (simp add: VideoSinkFilter_OnFrameReceived_def AudioSinkFilter_OnSamplesReceived_def
      Let_def media_sample_def FAILED_def hresult_defs)

section \<open>Sample ingest: the callback's status\<close>

text \<open>
  Claim C7. For an audio sample whose buffer pointer and times are obtained, whose
  length is positive and for which \<open>Init\<close> returns status 0, \<open>OnSamplesReceived\<close>
  returns \<open>S_OK\<close> for every callback: the buffer is handed to the callback once, and a
  non-zero status of the callback appears in the log and nowhere else.
\<close>

theorem C7_callback_status_not_propagated:
  assumes "GetPointer s = (hr, Some bytes)" and "\<not> FAILED hr"
    and "0 < sint (GetActualDataLength s)"
    and "GetTime s = (hrt, start_time, end_time)" and "\<not> FAILED hrt"
    and "Init (actual_config (sink_pin f)) (media_time_to_milliseconds start_time)
           (if hrt \<noteq> VFW_S_NO_STOP_TIME
            then media_time_to_milliseconds end_time - media_time_to_milliseconds start_time
            else 0)
           bytes (GetActualDataLength s) (sample_buffer f) = (0, b)"
  shows "hresult (AudioSinkFilter_OnSamplesReceived Init callback (Some s) f) = S_OK \<and>
         delivered (AudioSinkFilter_OnSamplesReceived Init callback (Some s) f) = [b] \<and>
         filter_after (AudioSinkFilter_OnSamplesReceived Init callback (Some s) f)
           = f\<lparr>sample_buffer := b\<rparr> \<and>
         ((ERROR, ''OnSamplesReceived failed, status='')
            \<in> set (logged (AudioSinkFilter_OnSamplesReceived Init callback (Some s) f))
          \<longleftrightarrow> callback b \<noteq> 0)"
  using assms
  by (simp add: AudioSinkFilter_OnSamplesReceived_def Let_def)

theorem C7_callback_status_not_propagated_witness:
  "GetPointer (media_sample (Some [1, 2, 3]) 3 S_OK 10000 30000) = (S_OK, Some [1, 2, 3]) \<and>
   \<not> FAILED S_OK \<and>
   0 < sint (GetActualDataLength (media_sample (Some [1, 2, 3]) 3 S_OK 10000 30000)) \<and>
   GetTime (media_sample (Some [1, 2, 3]) 3 S_OK 10000 30000) = (S_OK, 10000, 30000) \<and>
   copy_Init (actual_config (sink_pin audio_filter0)) 1 2 [1, 2, 3] 3
     (sample_buffer audio_filter0) = (0, (zero_AudioConfig, 1, 2, [1, 2, 3])) \<and>
   (\<lambda>_. 1 :: int) (zero_AudioConfig, 1 :: 64 word, 2 :: 64 word, [1, 2, 3 :: 8 word]) \<noteq> 0 \<and>
   hresult (AudioSinkFilter_OnSamplesReceived copy_Init (\<lambda>_. 1)
     (Some (media_sample (Some [1, 2, 3]) 3 S_OK 10000 30000)) audio_filter0) = S_OK \<and>
   delivered (AudioSinkFilter_OnSamplesReceived copy_Init (\<lambda>_. 1)
     (Some (media_sample (Some [1, 2, 3]) 3 S_OK 10000 30000)) audio_filter0)
     = [(zero_AudioConfig, 1, 2, [1, 2, 3])] \<and>
   (ERROR, ''OnSamplesReceived failed, status='')
     \<in> set (logged (AudioSinkFilter_OnSamplesReceived copy_Init (\<lambda>_. 1)
         (Some (media_sample (Some [1, 2, 3]) 3 S_OK 10000 30000)) audio_filter0))"
proof -
  have ms: "media_time_to_milliseconds 10000 = 1" "media_time_to_milliseconds 30000 = 3"
    by (simp_all add: media_time_to_milliseconds_def kTicksPerMillisecond_def
        signed_divide_int_def)
  have p: "GetPointer (media_sample (Some [1, 2, 3]) 3 S_OK 10000 30000) = (S_OK, Some [1, 2, 3])"
    by (simp add: media_sample_def)
  have t: "GetTime (media_sample (Some [1, 2, 3]) 3 S_OK 10000 30000) = (S_OK, 10000, 30000)"
    by (simp add: media_sample_def)
  have l: "0 < sint (GetActualDataLength (media_sample (Some [1, 2, 3]) 3 S_OK 10000 30000))"
    by (simp add: media_sample_def)
  have i: "copy_Init (actual_config (sink_pin audio_filter0)) (media_time_to_milliseconds 10000)
           (if S_OK \<noteq> VFW_S_NO_STOP_TIME
            then media_time_to_milliseconds 30000 - media_time_to_milliseconds 10000
            else 0)
           [1, 2, 3] (GetActualDataLength (media_sample (Some [1, 2, 3]) 3 S_OK 10000 30000))
           (sample_buffer audio_filter0) = (0, (zero_AudioConfig, 1, 2, [1, 2, 3]))"
    by (simp add: ms copy_Init_def media_sample_def audio_filter0_def audio_pin0_def hresult_defs)
  show ?thesis
    using C7_callback_status_not_propagated
      [where s = "media_sample (Some [1, 2, 3]) 3 S_OK 10000 30000" and hr = S_OK
        and bytes = "[1, 2, 3]" and hrt = S_OK and start_time = 10000 and end_time = 30000
        and Init = copy_Init and f = audio_filter0 and b = "(zero_AudioConfig, 1, 2, [1, 2, 3])"
        and callback = "\<lambda>_. 1"] p t l i
    by (simp add: FAILED_def ms hresult_defs media_sample_def)
qed

end
